theory Spec2Isabelle
  imports Complex_Main
begin

section \<open>Data model\<close>

text \<open>
  The report generator of \<^verbatim>\<open>src/generate_report.py\<close> holds two data frames,
  \<^verbatim>\<open>tracks_df\<close> and \<^verbatim>\<open>playlists_df\<close>. A data frame is modelled by its column
  names and its rows. Columns are typed as the processed dataset has them: the object
  columns (artist, album, release_date, ...) hold strings, the numeric columns (popularity,
  release_year, the audio features) hold floats. A null cell (None, NaN, NaT) is \<open>None\<close>.
  A finite float cell is the real number it denotes.
\<close>

record row =
  strs :: "string \<Rightarrow> string option"
  nums :: "string \<Rightarrow> real option"

record dataframe =
  columns :: "string list"
  rows :: "row list"

record generator =
  tracks_df :: dataframe
  playlists_df :: "dataframe option"

datatype py_error = FileNotFoundError | ValueError | ReadError

section \<open>The data-frame operations the generator calls\<close>

definition has_column :: "dataframe \<Rightarrow> string \<Rightarrow> bool" where
  "has_column df c = (c \<in> set (columns df))"

definition len :: "dataframe \<Rightarrow> nat" where
  "len df = length (rows df)"

definition str_col :: "dataframe \<Rightarrow> string \<Rightarrow> string option list" where
  "str_col df c = map (\<lambda>r. strs r c) (rows df)"

definition num_col :: "dataframe \<Rightarrow> string \<Rightarrow> real option list" where
  "num_col df c = map (\<lambda>r. nums r c) (rows df)"

primrec dropna :: "'a option list \<Rightarrow> 'a list" where
  "dropna [] = []"
| "dropna (x # xs) = (case x of None \<Rightarrow> dropna xs | Some v \<Rightarrow> v # dropna xs)"

text \<open>\<^verbatim>\<open>Series.nunique()\<close>: the number of distinct non-null values.\<close>

definition nunique :: "'a option list \<Rightarrow> nat" where
  "nunique xs = length (remdups (dropna xs))"

text \<open>\<^verbatim>\<open>Series.min()\<close>, \<^verbatim>\<open>Series.max()\<close> and \<^verbatim>\<open>Series.mean()\<close> skip nulls and are NaN
  when no value is left.\<close>

definition series_min :: "real option list \<Rightarrow> real option" where
  "series_min xs = (case dropna xs of [] \<Rightarrow> None | v # vs \<Rightarrow> Some (fold min vs v))"

definition series_max :: "real option list \<Rightarrow> real option" where
  "series_max xs = (case dropna xs of [] \<Rightarrow> None | v # vs \<Rightarrow> Some (fold max vs v))"

definition series_mean :: "real option list \<Rightarrow> real option" where
  "series_mean xs =
     (let vs = dropna xs in if vs = [] then None else Some (sum_list vs / real (length vs)))"

text \<open>\<^verbatim>\<open>int(x)\<close> on a float: truncation towards zero, and ValueError on NaN.\<close>

definition py_int :: "real option \<Rightarrow> py_error + int" where
  "py_int x = (case x of None \<Rightarrow> Inl ValueError
               | Some v \<Rightarrow> Inr (if 0 \<le> v then \<lfloor>v\<rfloor> else \<lceil>v\<rceil>))"

text \<open>\<^verbatim>\<open>df[c] = values\<close> on a numeric column: the column is appended when it is new and
  overwritten otherwise; \<open>val\<close> gives the new cell of each row.\<close>

definition assign_num :: "dataframe \<Rightarrow> string \<Rightarrow> (row \<Rightarrow> real option) \<Rightarrow> dataframe" where
  "assign_num df c val =
     df\<lparr>columns := (if c \<in> set (columns df) then columns df else columns df @ [c]),
        rows := map (\<lambda>r. r\<lparr>nums := (nums r)(c := val r)\<rparr>) (rows df)\<rparr>"

text \<open>\<^verbatim>\<open>pd.to_datetime(df['release_date'], errors='coerce').dt.year\<close> belongs to the
  table library and is a parameter \<open>to_datetime\<close> of the model. Applied to the column it
  either raises (dates with mixed UTC offsets do) or gives the reading of the cells it has
  settled on for this column: the year of a parsable date and \<open>None\<close> (NaT) otherwise.
  A null cell stays null.\<close>

type_synonym to_datetime_t = "string option list \<Rightarrow> py_error + (string \<Rightarrow> int option)"

definition release_year_of :: "(string \<Rightarrow> int option) \<Rightarrow> row \<Rightarrow> int option" where
  "release_year_of parse r =
     (case strs r ''release_date'' of None \<Rightarrow> None | Some s \<Rightarrow> parse s)"

section \<open>Summary statistics\<close>

record year_range_t =
  min_year :: int
  max_year :: int

text \<open>The \<^verbatim>\<open>stats\<close> dictionary. The key \<^verbatim>\<open>year_range\<close> is not set (\<open>None\<close>) when there
  is no release_date column, is \<^verbatim>\<open>None\<close> (\<open>Some None\<close>) when the computation raised, and
  holds the range otherwise.\<close>

record stats =
  total_tracks :: nat
  total_playlists :: nat
  unique_artists :: nat
  unique_albums :: nat
  year_range :: "year_range_t option option"

text \<open>The two \<^verbatim>\<open>int(...)\<close> conversions of the \<^verbatim>\<open>try\<close> block.\<close>

definition year_range_try :: "dataframe \<Rightarrow> py_error + year_range_t" where
  "year_range_try df =
     (case py_int (series_min (num_col df ''release_year'')) of
        Inl e \<Rightarrow> Inl e
      | Inr lo \<Rightarrow>
          (case py_int (series_max (num_col df ''release_year'')) of
             Inl e \<Rightarrow> Inl e
           | Inr hi \<Rightarrow> Inr \<lparr>min_year = lo, max_year = hi\<rparr>))"

text \<open>The \<^verbatim>\<open>try\<close> block starts with the assignment of release_year. When the
  conversion raises, nothing is assigned; when an \<^verbatim>\<open>int(...)\<close> raises, the column has
  been assigned already. The bare \<^verbatim>\<open>except\<close> catches both and sets \<^verbatim>\<open>year_range\<close> to
  \<^verbatim>\<open>None\<close>.\<close>

definition create_summary_stats :: "to_datetime_t \<Rightarrow> generator \<Rightarrow> stats \<times> generator" where
  "create_summary_stats to_datetime g =
     (let df = tracks_df g;
          st = \<lparr>total_tracks = len df,
                total_playlists = (case playlists_df g of None \<Rightarrow> 0 | Some p \<Rightarrow> len p),
                unique_artists =
                  (if has_column df ''artist'' then nunique (str_col df ''artist'') else 0),
                unique_albums =
                  (if has_column df ''album'' then nunique (str_col df ''album'') else 0),
                year_range = None\<rparr>
      in if has_column df ''release_date'' then
           (case to_datetime (str_col df ''release_date'') of
              Inl e \<Rightarrow> (st\<lparr>year_range := Some None\<rparr>, g)
            | Inr parse \<Rightarrow>
                (let df' = assign_num df ''release_year''
                             (\<lambda>r. map_option real_of_int (release_year_of parse r));
                     g' = g\<lparr>tracks_df := df'\<rparr>
                 in case year_range_try df' of
                      Inr yr \<Rightarrow> (st\<lparr>year_range := Some (Some yr)\<rparr>, g')
                    | Inl e \<Rightarrow> (st\<lparr>year_range := Some None\<rparr>, g')))
         else (st, g))"

section \<open>Charts\<close>

text \<open>
  Every chart method returns \<^verbatim>\<open>None\<close> or \<^verbatim>\<open>fig.to_html(full_html=False, ...)\<close>. The
  figure is kept as the data the method hands to it (the series, in the order of the
  traces); titles, capitalised labels, colours and layout are left out. The rendering puts
  the figure into a \<^verbatim>\<open>div\<close> whose id is a fresh \<^verbatim>\<open>uuid4\<close>; the value drawn in a call is an
  argument of the call.
\<close>

datatype chart =
    Histogram "real option list" nat
  | Scatterpolar "real option list" "string list"
  | Scatter_lines "real option list" "(string \<times> real option list) list"
  | Bar "nat list" "string list"
  | Imshow "string list" "real option list list"

record html_div =
  div_id :: string
  figure :: chart

definition to_html :: "string \<Rightarrow> chart \<Rightarrow> html_div" where
  "to_html uuid fig = \<lparr>div_id = uuid, figure = fig\<rparr>"

definition create_popularity_chart :: "string \<Rightarrow> generator \<Rightarrow> html_div option" where
  "create_popularity_chart uuid g =
     (let df = tracks_df g
      in if \<not> has_column df ''popularity'' then None
         else Some (to_html uuid (Histogram (num_col df ''popularity'') 20)))"

definition radar_features :: "string list" where
  "radar_features = [''danceability'', ''energy'', ''valence'', ''acousticness'',
                     ''instrumentalness'', ''liveness'', ''speechiness'']"

definition create_audio_features_radar :: "string \<Rightarrow> generator \<Rightarrow> html_div option" where
  "create_audio_features_radar uuid g =
     (let df = tracks_df g;
          available_features = filter (has_column df) radar_features
      in if available_features = [] then None
         else Some (to_html uuid
                      (Scatterpolar (map (\<lambda>f. series_mean (num_col df f)) available_features)
                                    available_features)))"

subsection \<open>Yearly trends\<close>

text \<open>\<^verbatim>\<open>df.groupby(key)[feats].mean().reset_index()\<close>: one row per distinct non-null key,
  in ascending order of the key, holding the key and the mean of each feature over the rows
  of the group.\<close>

definition groupby_mean :: "dataframe \<Rightarrow> string \<Rightarrow> string list \<Rightarrow> dataframe" where
  "groupby_mean df key feats =
     \<lparr>columns = key # feats,
      rows = map (\<lambda>k. \<lparr>strs = (\<lambda>c. None),
                        nums = (\<lambda>c. if c = key then Some k
                                     else if c \<in> set feats
                                     then series_mean
                                            (map (\<lambda>r. nums r c)
                                               (filter (\<lambda>r. nums r key = Some k) (rows df)))
                                     else None)\<rparr>)
               (sort (remdups (dropna (num_col df key))))\<rparr>"

text \<open>The boolean mask \<^verbatim>\<open>(y >= 1990) & (y <= 2025)\<close>; a comparison with NaN is false.\<close>

definition reasonable_year :: "row \<Rightarrow> bool" where
  "reasonable_year r =
     (case nums r ''release_year'' of None \<Rightarrow> False | Some y \<Rightarrow> 1990 \<le> y \<and> y \<le> 2025)"

definition trend_features :: "string list" where
  "trend_features = [''danceability'', ''energy'', ''valence'']"

definition create_yearly_trends :: "string \<Rightarrow> generator \<Rightarrow> html_div option" where
  "create_yearly_trends uuid g =
     (let df = tracks_df g
      in if \<not> has_column df ''release_year'' then None
         else
           (let available_features = filter (has_column df) trend_features
            in if available_features = [] then None
               else
                 (let grouped = groupby_mean df ''release_year'' available_features;
                      yearly_trends = grouped\<lparr>rows := filter reasonable_year (rows grouped)\<rparr>
                  in Some (to_html uuid
                             (Scatter_lines (num_col yearly_trends ''release_year'')
                                (map (\<lambda>f. (f, num_col yearly_trends f)) available_features))))))"

subsection \<open>Top artists\<close>

text \<open>\<^verbatim>\<open>Series.value_counts()\<close>: nulls are dropped, every distinct value is counted, and
  the counts are sorted in descending order. The distinct values are taken in the order of
  their first appearance and the sort is taken to be stable, so equal counts keep that
  order.\<close>

primrec unique :: "'a list \<Rightarrow> 'a list" where
  "unique [] = []"
| "unique (x # xs) = x # filter (\<lambda>y. y \<noteq> x) (unique xs)"

definition value_counts :: "'a option list \<Rightarrow> ('a \<times> nat) list" where
  "value_counts xs =
     (let vs = dropna xs
      in sort_key (\<lambda>p. - int (snd p)) (map (\<lambda>k. (k, count_list vs k)) (unique vs)))"

text \<open>\<^verbatim>\<open>px.bar(x=..., y=...)\<close> takes an empty sequence for a list of column references and
  refuses such a list for both \<^verbatim>\<open>x\<close> and \<^verbatim>\<open>y\<close> with ValueError. No other figure of the
  generator is built from bare sequences.\<close>

definition px_bar :: "nat list \<Rightarrow> string list \<Rightarrow> py_error + chart" where
  "px_bar x y = (if x = [] \<and> y = [] then Inl ValueError else Inr (Bar x y))"

definition create_top_artists_chart :: "string \<Rightarrow> generator \<Rightarrow> py_error + html_div option" where
  "create_top_artists_chart uuid g =
     (let df = tracks_df g
      in if \<not> has_column df ''artist'' then Inr None
         else
           (let artist_counts = take 15 (value_counts (str_col df ''artist''))
            in case px_bar (map snd artist_counts) (map fst artist_counts) of
                 Inl e \<Rightarrow> Inl e
               | Inr fig \<Rightarrow> Inr (Some (to_html uuid fig))))"

subsection \<open>Correlation heatmap\<close>

text \<open>A column has zero variance when all its non-null values are equal; this covers the
  column with one value and the column with none.\<close>

definition zero_variance :: "real list \<Rightarrow> bool" where
  "zero_variance vs = (\<forall>u\<in>set vs. \<forall>v\<in>set vs. u = v)"

definition pairwise_complete :: "dataframe \<Rightarrow> string \<Rightarrow> string \<Rightarrow> (real \<times> real) list" where
  "pairwise_complete df a b =
     dropna (map (\<lambda>r. case nums r a of None \<Rightarrow> None
                       | Some x \<Rightarrow> (case nums r b of None \<Rightarrow> None | Some y \<Rightarrow> Some (x, y)))
               (rows df))"

text \<open>
  \<^verbatim>\<open>DataFrame.corr()\<close>: Pearson correlation of every pair of columns over the rows where
  both are present, one observation being enough. The library runs over the observations in
  float64, keeping the mean and the sums of squared deviations \<^verbatim>\<open>ssqdmx\<close>, \<^verbatim>\<open>ssqdmy\<close> and
  \<^verbatim>\<open>covxy\<close>; the entry is \<^verbatim>\<open>covxy / sqrt(ssqdmx * ssqdmy)\<close>, clipped to the interval from
  -1 to 1, and NaN when the divisor is zero. On a column whose values are all equal every
  deviation is exactly zero, so the divisor is zero or NaN and the entry is NaN. On other
  columns the float64 value of the quotient depends on rounding, and under- or overflow of
  the product can make it NaN; it is the parameter \<open>float_corr\<close> of the model.
\<close>

definition pearson ::
  "((real \<times> real) list \<Rightarrow> real option) \<Rightarrow> (real \<times> real) list \<Rightarrow> real option" where
  "pearson float_corr ps =
     (let nobs = length ps
      in if nobs < 1 then None
         else if zero_variance (map fst ps) \<or> zero_variance (map snd ps) then None
         else (case float_corr ps of
                 None \<Rightarrow> None
               | Some val \<Rightarrow> Some (if 1 < val then 1 else if val < - 1 then - 1 else val)))"

text \<open>The library fills the matrix pair by pair, the column of the greater index as x, and
  writes each value to both places \<^verbatim>\<open>result[xi, yi]\<close> and \<^verbatim>\<open>result[yi, xi]\<close>.\<close>

definition corr ::
  "((real \<times> real) list \<Rightarrow> real option) \<Rightarrow> dataframe \<Rightarrow> string list \<Rightarrow> real option list list" where
  "corr float_corr df feats =
     map (\<lambda>i. map (\<lambda>j. pearson float_corr
                          (pairwise_complete df (feats ! max i j) (feats ! min i j)))
                [0..<length feats])
       [0..<length feats]"

definition heatmap_features :: "string list" where
  "heatmap_features = [''danceability'', ''energy'', ''valence'', ''tempo'', ''loudness'',
                       ''acousticness'', ''instrumentalness'', ''liveness'', ''speechiness'']"

definition create_correlation_heatmap ::
  "((real \<times> real) list \<Rightarrow> real option) \<Rightarrow> string \<Rightarrow> generator \<Rightarrow> html_div option" where
  "create_correlation_heatmap float_corr uuid g =
     (let df = tracks_df g;
          available_features = filter (has_column df) heatmap_features
      in if length available_features < 2 then None
         else Some (to_html uuid
                      (Imshow available_features (corr float_corr df available_features))))"

text \<open>The quotient in exact arithmetic, the value \<open>float_corr\<close> has when nothing is
  rounded.\<close>

definition exact_corr :: "(real \<times> real) list \<Rightarrow> real option" where
  "exact_corr ps =
     (let nobs = length ps;
          meanx = sum_list (map fst ps) / real nobs;
          meany = sum_list (map snd ps) / real nobs;
          ssqdmx = sum_list (map (\<lambda>p. (fst p - meanx) * (fst p - meanx)) ps);
          ssqdmy = sum_list (map (\<lambda>p. (snd p - meany) * (snd p - meany)) ps);
          covxy = sum_list (map (\<lambda>p. (fst p - meanx) * (snd p - meany)) ps);
          divisor = sqrt (ssqdmx * ssqdmy)
      in if divisor \<noteq> 0 then Some (covxy / divisor) else None)"

section \<open>The report\<close>

datatype operation = Summary_stats | Popularity_chart | Audio_features_radar | Yearly_trends
  | Top_artists_chart | Correlation_heatmap

record report =
  report_stats :: stats
  popularity_chart :: "html_div option"
  radar_chart :: "html_div option"
  trends_chart :: "html_div option"
  artists_chart :: "html_div option"
  correlation_chart :: "html_div option"

text \<open>\<^verbatim>\<open>generate_html_report\<close> calls the six methods in this order on the same object;
  the summary statistics come first and leave their release_year column behind. An
  exception of a method ends the report. \<open>uuid\<close> gives the id drawn in each chart call.\<close>

definition generate_html_report ::
  "to_datetime_t \<Rightarrow> ((real \<times> real) list \<Rightarrow> real option) \<Rightarrow> (operation \<Rightarrow> string) \<Rightarrow> generator
     \<Rightarrow> py_error + report \<times> generator" where
  "generate_html_report to_datetime float_corr uuid g =
     (case create_summary_stats to_datetime g of
        (st, g') \<Rightarrow>
          (let popularity = create_popularity_chart (uuid Popularity_chart) g';
               radar = create_audio_features_radar (uuid Audio_features_radar) g';
               trends = create_yearly_trends (uuid Yearly_trends) g'
           in case create_top_artists_chart (uuid Top_artists_chart) g' of
                Inl e \<Rightarrow> Inl e
              | Inr artists \<Rightarrow>
                  Inr (\<lparr>report_stats = st,
                        popularity_chart = popularity,
                        radar_chart = radar,
                        trends_chart = trends,
                        artists_chart = artists,
                        correlation_chart =
                          create_correlation_heatmap float_corr (uuid Correlation_heatmap) g'\<rparr>,
                       g')))"

section \<open>Loading the data\<close>

text \<open>
  The data directory is the list of its files in the order \<^verbatim>\<open>glob\<close> lists them, each
  with its name and its creation time. The patterns are \<^verbatim>\<open>clean_tracks_*.parquet\<close> and
  so on: a prefix, a star and a suffix. The two readers of the table library are parameters
  of the model; a reader either raises or gives the table of the file.
\<close>

record data_file =
  path :: string
  ctime :: real

type_synonym reader = "data_file \<Rightarrow> py_error + dataframe"

definition fnmatch :: "string \<times> string \<Rightarrow> string \<Rightarrow> bool" where
  "fnmatch pat n =
     (case pat of (pre, suf) \<Rightarrow>
        length pre + length suf \<le> length n \<and> take (length pre) n = pre \<and>
        drop (length n - length suf) n = suf)"

definition glob :: "data_file list \<Rightarrow> string \<times> string \<Rightarrow> data_file list" where
  "glob dir pat = filter (\<lambda>f. fnmatch pat (path f)) dir"

definition endswith :: "string \<Rightarrow> string \<Rightarrow> bool" where
  "endswith n suf = (length suf \<le> length n \<and> drop (length n - length suf) n = suf)"

text \<open>\<^verbatim>\<open>max(files, key=os.path.getctime)\<close> on a non-empty list: the first file among those
  with the greatest creation time.\<close>

definition max_ctime :: "data_file \<Rightarrow> data_file list \<Rightarrow> data_file" where
  "max_ctime f fs = fold (\<lambda>x best. if ctime best < ctime x then x else best) fs f"

text \<open>The loop over the patterns: the first pattern with a match decides, and the loop
  stops there.\<close>

fun find_latest :: "(string \<times> string) list \<Rightarrow> data_file list \<Rightarrow> data_file option" where
  "find_latest [] dir = None"
| "find_latest (pat # pats) dir =
     (case glob dir pat of
        [] \<Rightarrow> find_latest pats dir
      | f # fs \<Rightarrow> Some (max_ctime f fs))"

definition read_latest :: "reader \<Rightarrow> reader \<Rightarrow> data_file \<Rightarrow> py_error + dataframe" where
  "read_latest read_parquet read_csv latest_file =
     (if endswith (path latest_file) ''.parquet'' then read_parquet latest_file
      else read_csv latest_file)"

text \<open>One of the two searches of \<^verbatim>\<open>load_data\<close>: the frame stays \<^verbatim>\<open>None\<close> when no pattern
  matches, and an exception of the reader ends the search.\<close>

definition load_latest ::
  "reader \<Rightarrow> reader \<Rightarrow> (string \<times> string) list \<Rightarrow> data_file list
     \<Rightarrow> py_error + dataframe option" where
  "load_latest read_parquet read_csv pats dir =
     (case find_latest pats dir of
        None \<Rightarrow> Inr None
      | Some latest_file \<Rightarrow>
          (case read_latest read_parquet read_csv latest_file of
             Inl e \<Rightarrow> Inl e
           | Inr df \<Rightarrow> Inr (Some df)))"

definition track_patterns :: "(string \<times> string) list" where
  "track_patterns = [(''clean_tracks_'', ''.parquet''), (''clean_tracks_'', ''.csv'')]"

definition playlist_patterns :: "(string \<times> string) list" where
  "playlist_patterns = [(''clean_playlists_'', ''.parquet''), (''clean_playlists_'', ''.csv'')]"

text \<open>\<^verbatim>\<open>load_data\<close>: tracks, then playlists, then the check for the tracks. The
  \<^verbatim>\<open>except\<close> clause prints and raises the exception again.\<close>

definition load_data :: "reader \<Rightarrow> reader \<Rightarrow> data_file list \<Rightarrow> py_error + generator" where
  "load_data read_parquet read_csv dir =
     (case load_latest read_parquet read_csv track_patterns dir of
        Inl e \<Rightarrow> Inl e
      | Inr tracks \<Rightarrow>
          (case load_latest read_parquet read_csv playlist_patterns dir of
             Inl e \<Rightarrow> Inl e
           | Inr playlists \<Rightarrow>
               (case tracks of
                  None \<Rightarrow> Inl FileNotFoundError
                | Some t \<Rightarrow> Inr \<lparr>tracks_df = t, playlists_df = playlists\<rparr>)))"


section \<open>Invoking a method\<close>

text \<open>A method call on the generator object: the call returns its result or raises, and
  leaves the object behind for the next call. Only the summary statistics change the
  object. \<open>uuid\<close> is the id drawn by the rendering in this call.\<close>

datatype op_output = Stats_out stats | Chart_out "html_div option"

fun invoke ::
  "to_datetime_t \<Rightarrow> ((real \<times> real) list \<Rightarrow> real option) \<Rightarrow> string \<Rightarrow> operation \<Rightarrow> generator
     \<Rightarrow> (py_error + op_output) \<times> generator" where
  "invoke to_datetime float_corr uuid Summary_stats g =
     (case create_summary_stats to_datetime g of (st, g') \<Rightarrow> (Inr (Stats_out st), g'))"
| "invoke to_datetime float_corr uuid Popularity_chart g =
     (Inr (Chart_out (create_popularity_chart uuid g)), g)"
| "invoke to_datetime float_corr uuid Audio_features_radar g =
     (Inr (Chart_out (create_audio_features_radar uuid g)), g)"
| "invoke to_datetime float_corr uuid Yearly_trends g =
     (Inr (Chart_out (create_yearly_trends uuid g)), g)"
| "invoke to_datetime float_corr uuid Top_artists_chart g =
     (case create_top_artists_chart uuid g of
        Inl e \<Rightarrow> (Inl e, g)
      | Inr c \<Rightarrow> (Inr (Chart_out c), g))"
| "invoke to_datetime float_corr uuid Correlation_heatmap g =
     (Inr (Chart_out (create_correlation_heatmap float_corr uuid g)), g)"

text \<open>The result of a call without the id of the rendering.\<close>

fun figure_data :: "py_error + op_output \<Rightarrow> py_error + stats + chart option" where
  "figure_data (Inl e) = Inl e"
| "figure_data (Inr (Stats_out st)) = Inr (Inl st)"
| "figure_data (Inr (Chart_out c)) = Inr (Inr (map_option figure c))"

section \<open>Notions used in the statements\<close>

text \<open>The years read from release_date, unparsable and null dates left out.\<close>

definition parsed_years :: "(string \<Rightarrow> int option) \<Rightarrow> dataframe \<Rightarrow> int list" where
  "parsed_years parse df = dropna (map (release_year_of parse) (rows df))"

text \<open>The mean of feature \<open>f\<close> over the tracks released in year \<open>y\<close>.\<close>

definition year_mean :: "(string \<Rightarrow> int option) \<Rightarrow> dataframe \<Rightarrow> string \<Rightarrow> int \<Rightarrow> real option" where
  "year_mean parse df f y =
     series_mean (map (\<lambda>r. nums r f) (filter (\<lambda>r. release_year_of parse r = Some y) (rows df)))"

text \<open>The tracks table as the summary statistics leave it when the conversion succeeds.\<close>

definition with_release_year :: "(string \<Rightarrow> int option) \<Rightarrow> dataframe \<Rightarrow> dataframe" where
  "with_release_year parse df =
     assign_num df ''release_year'' (\<lambda>r. map_option real_of_int (release_year_of parse r))"

definition trend_years :: "(string \<Rightarrow> int option) \<Rightarrow> dataframe \<Rightarrow> int list" where
  "trend_years parse df =
     filter (\<lambda>y. 1990 \<le> y \<and> y \<le> 2025) (sort (remdups (parsed_years parse df)))"

text \<open>The trend series of a table: the years of the window in ascending order, and for
  each available feature its mean in each of these years.\<close>

definition trend_series :: "(string \<Rightarrow> int option) \<Rightarrow> dataframe \<Rightarrow> chart" where
  "trend_series parse df =
     Scatter_lines (map (\<lambda>y. Some (real_of_int y)) (trend_years parse df))
       (map (\<lambda>f. (f, map (year_mean parse df f) (trend_years parse df)))
          (filter (has_column df) trend_features))"

text \<open>The non-null artist values in row order, and the position where a value is first
  met.\<close>

definition artists :: "dataframe \<Rightarrow> string list" where
  "artists df = dropna (str_col df ''artist'')"


text \<open>The files of a directory that match the parquet and the CSV pattern of a data set,
  and the file the loader settles on.\<close>

definition parquet_files :: "string \<Rightarrow> data_file list \<Rightarrow> data_file list" where
  "parquet_files pre dir = glob dir (pre, ''.parquet'')"

definition csv_files :: "string \<Rightarrow> data_file list \<Rightarrow> data_file list" where
  "csv_files pre dir = glob dir (pre, ''.csv'')"

definition newest_in :: "data_file list \<Rightarrow> data_file \<Rightarrow> bool" where
  "newest_in fs f = (f \<in> set fs \<and> (\<forall>x\<in>set fs. ctime x \<le> ctime f))"

text \<open>The file the loader settles on for a data set, and the reader it calls: the
  newest parquet file when a parquet file matches, and else the newest CSV file.\<close>

definition chosen_file :: "string \<Rightarrow> data_file list \<Rightarrow> data_file \<Rightarrow> bool" where
  "chosen_file pre dir f =
     (if parquet_files pre dir \<noteq> [] then newest_in (parquet_files pre dir) f
      else newest_in (csv_files pre dir) f)"

definition chosen_reader :: "reader \<Rightarrow> reader \<Rightarrow> string \<Rightarrow> data_file list \<Rightarrow> reader" where
  "chosen_reader read_parquet read_csv pre dir =
     (if parquet_files pre dir \<noteq> [] then read_parquet else read_csv)"

definition no_files :: "string \<Rightarrow> data_file list \<Rightarrow> bool" where
  "no_files pre dir = (parquet_files pre dir = [] \<and> csv_files pre dir = [])"

section \<open>Sample data\<close>

text \<open>The three tracks of the scenario in the specification, with the years a date parser
  gives on its three dates.\<close>

definition track_row :: "string \<Rightarrow> string \<Rightarrow> real \<Rightarrow> real \<Rightarrow> row" where
  "track_row artist release_date popularity danceability =
     \<lparr>strs = [''artist'' \<mapsto> artist, ''release_date'' \<mapsto> release_date],
      nums = [''popularity'' \<mapsto> popularity, ''danceability'' \<mapsto> danceability]\<rparr>"

definition scenario_gen :: generator where
  "scenario_gen =
     \<lparr>tracks_df =
        \<lparr>columns = [''artist'', ''popularity'', ''release_date'', ''danceability''],
         rows = [track_row ''A'' ''2020-01-01'' 80 (1/2),
                 track_row ''A'' ''2021-06-01'' 60 (7/10),
                 track_row ''B'' ''2020-03-01'' 90 (9/10)]\<rparr>,
      playlists_df = None\<rparr>"

definition scenario_years :: "string \<Rightarrow> int option" where
  "scenario_years s =
     (if s = ''2020-01-01'' \<or> s = ''2020-03-01'' then Some 2020
      else if s = ''2021-06-01'' then Some 2021 else None)"

text \<open>Two tracks whose dates carry different UTC offsets, and a conversion that raises on
  their column and reads the dates of the scenario elsewhere.\<close>

definition mixed_offset_gen :: generator where
  "mixed_offset_gen =
     \<lparr>tracks_df =
        \<lparr>columns = [''artist'', ''popularity'', ''release_date'', ''danceability''],
         rows = [track_row ''A'' ''2020-01-01T00:00:00+01:00'' 80 (1/2),
                 track_row ''B'' ''2021-06-01T00:00:00-05:00'' 60 (7/10)]\<rparr>,
      playlists_df = None\<rparr>"

definition sample_to_datetime :: to_datetime_t where
  "sample_to_datetime col =
     (if col = [Some ''2020-01-01T00:00:00+01:00'', Some ''2021-06-01T00:00:00-05:00'']
      then Inl ValueError else Inr scenario_years)"



text \<open>Three tracks, the second without an artist, and a table whose only track has no
  artist.\<close>

definition artist_row :: "string option \<Rightarrow> row" where
  "artist_row a = \<lparr>strs = (\<lambda>c. if c = ''artist'' then a else None), nums = (\<lambda>c. None)\<rparr>"

definition null_artist_gen :: generator where
  "null_artist_gen =
     \<lparr>tracks_df =
        \<lparr>columns = [''artist''],
         rows = [artist_row (Some ''A''), artist_row None, artist_row (Some ''A'')]\<rparr>,
      playlists_df = None\<rparr>"

definition no_artist_gen :: generator where
  "no_artist_gen =
     \<lparr>tracks_df = \<lparr>columns = [''artist''], rows = [artist_row None]\<rparr>, playlists_df = None\<rparr>"


definition both_formats_dir :: "data_file list" where
  "both_formats_dir =
     [\<lparr>path = ''clean_tracks_1.parquet'', ctime = 1\<rparr>,
      \<lparr>path = ''clean_tracks_2.csv'', ctime = 2\<rparr>,
      \<lparr>path = ''clean_tracks_3.parquet'', ctime = 3\<rparr>,
      \<lparr>path = ''clean_playlists_1.csv'', ctime = 1\<rparr>,
      \<lparr>path = ''clean_playlists_2.csv'', ctime = 2\<rparr>]"

definition older_parquet_dir :: "data_file list" where
  "older_parquet_dir =
     [\<lparr>path = ''clean_tracks_1.parquet'', ctime = 1\<rparr>,
      \<lparr>path = ''clean_tracks_2.csv'', ctime = 2\<rparr>]"

definition scenario_reader :: reader where
  "scenario_reader f = Inr (tracks_df scenario_gen)"


definition failing_reader :: reader where
  "failing_reader f = Inl ReadError"


section \<open>Summary statistics: properties\<close>

text \<open>
  Claim C8. For every tracks table with N rows, the \<^verbatim>\<open>total_tracks\<close> field of the
  summary statistics equals N.
\<close>

theorem total_tracks_eq_rows:
  "total_tracks (fst (create_summary_stats to_datetime g)) = length (rows (tracks_df g))"
  by (simp add: create_summary_stats_def Let_def len_def split: sum.split)

lemma dropna_map_option: "dropna (map (map_option f) xs) = map f (dropna xs)"
  by (induction xs) (auto split: option.splits)

lemma length_dropna: "length (dropna xs) = length (filter (\<lambda>x. x \<noteq> None) xs)"
  by (induction xs) (auto split: option.splits)

lemma num_col_assign_num_same: "num_col (assign_num df c val) c = map val (rows df)"
  by (simp add: num_col_def assign_num_def comp_def)

lemma fold_min_Min: "fold min vs (v::'a::linorder) = Min (set (v # vs))"
  by (simp only: Min.set_eq_fold)

lemma fold_max_Max: "fold max vs (v::'a::linorder) = Max (set (v # vs))"
  by (simp only: Max.set_eq_fold)

lemma series_min_of_int:
  "series_min (map (map_option real_of_int) ys) =
     (if dropna ys = [] then None else Some (real_of_int (Min (set (dropna ys)))))"
proof (cases "dropna ys")
  case Nil
  then show ?thesis by (simp add: series_min_def dropna_map_option)
next
  case (Cons k ks)
  have "mono real_of_int" by (simp add: mono_def)
  then have "real_of_int (Min (set (k # ks))) = Min (real_of_int ` set (k # ks))"
    by (intro mono_Min_commute) auto
  then show ?thesis using Cons
    by (simp add: series_min_def dropna_map_option fold_min_Min)
qed

lemma series_max_of_int:
  "series_max (map (map_option real_of_int) ys) =
     (if dropna ys = [] then None else Some (real_of_int (Max (set (dropna ys)))))"
proof (cases "dropna ys")
  case Nil
  then show ?thesis by (simp add: series_max_def dropna_map_option)
next
  case (Cons k ks)
  have "mono real_of_int" by (simp add: mono_def)
  then have "real_of_int (Max (set (k # ks))) = Max (real_of_int ` set (k # ks))"
    by (intro mono_Max_commute) auto
  then show ?thesis using Cons
    by (simp add: series_max_def dropna_map_option fold_max_Max)
qed

lemma py_int_of_int: "py_int (Some (real_of_int k)) = Inr k"
  by (simp add: py_int_def)

lemma num_col_with_release_year:
  "num_col (with_release_year parse df) ''release_year'' =
     map (map_option real_of_int) (map (release_year_of parse) (rows df))"
  by (simp add: with_release_year_def num_col_assign_num_same comp_def)

lemma year_range_try_with_release_year:
  "year_range_try (with_release_year parse df) =
     (if parsed_years parse df = [] then Inl ValueError
      else Inr \<lparr>min_year = Min (set (parsed_years parse df)),
                max_year = Max (set (parsed_years parse df))\<rparr>)"
  unfolding year_range_try_def num_col_with_release_year series_min_of_int series_max_of_int
    parsed_years_def
  by (simp add: py_int_of_int py_int_def)

lemma summary_stats_unfold:
  "create_summary_stats to_datetime g =
     (let df = tracks_df g;
          st = \<lparr>total_tracks = len df,
                total_playlists = (case playlists_df g of None \<Rightarrow> 0 | Some p \<Rightarrow> len p),
                unique_artists =
                  (if has_column df ''artist'' then nunique (str_col df ''artist'') else 0),
                unique_albums =
                  (if has_column df ''album'' then nunique (str_col df ''album'') else 0),
                year_range = None\<rparr>
      in if has_column df ''release_date'' then
           (case to_datetime (str_col df ''release_date'') of
              Inl e \<Rightarrow> (st\<lparr>year_range := Some None\<rparr>, g)
            | Inr parse \<Rightarrow>
                (case year_range_try (with_release_year parse df) of
                   Inr yr \<Rightarrow>
                     (st\<lparr>year_range := Some (Some yr)\<rparr>,
                      g\<lparr>tracks_df := with_release_year parse df\<rparr>)
                 | Inl e \<Rightarrow>
                     (st\<lparr>year_range := Some None\<rparr>,
                      g\<lparr>tracks_df := with_release_year parse df\<rparr>)))
         else (st, g))"
  unfolding create_summary_stats_def with_release_year_def Let_def by (rule refl)

lemma summary_stats_converted:
  assumes "has_column (tracks_df g) ''release_date''"
    and "to_datetime (str_col (tracks_df g) ''release_date'') = Inr parse"
  shows "snd (create_summary_stats to_datetime g) =
           g\<lparr>tracks_df := with_release_year parse (tracks_df g)\<rparr>"
  using assms by (simp add: summary_stats_unfold Let_def split: sum.split)

lemma summary_stats_raised:
  assumes "to_datetime (str_col (tracks_df g) ''release_date'') = Inl e"
  shows "snd (create_summary_stats to_datetime g) = g"
  using assms by (simp add: summary_stats_unfold Let_def)

lemma summary_stats_without_column:
  assumes "\<not> has_column (tracks_df g) ''release_date''"
  shows "snd (create_summary_stats to_datetime g) = g"
  using assms by (simp add: create_summary_stats_def Let_def)

lemma scenario_has_release_date: "has_column (tracks_df scenario_gen) ''release_date''"
  by (simp add: scenario_gen_def has_column_def)

lemma scenario_converted:
  "sample_to_datetime (str_col (tracks_df scenario_gen) ''release_date'') = Inr scenario_years"
  by (simp add: sample_to_datetime_def scenario_gen_def str_col_def track_row_def)

lemma mixed_offset_has_release_date: "has_column (tracks_df mixed_offset_gen) ''release_date''"
  by (simp add: mixed_offset_gen_def has_column_def)

lemma mixed_offset_raises:
  "sample_to_datetime (str_col (tracks_df mixed_offset_gen) ''release_date'') = Inl ValueError"
  by (simp add: sample_to_datetime_def mixed_offset_gen_def str_col_def track_row_def)

lemma scenario_parsed_years:
  "parsed_years scenario_years (tracks_df scenario_gen) = [2020, 2021, 2020]"
  by (simp add: parsed_years_def scenario_gen_def track_row_def release_year_of_def
        scenario_years_def)

text \<open>
  Claim C5. For every tracks table with a release_date column, the summary statistics take
  \<^verbatim>\<open>year_range\<close> as the least and the greatest of the years read from release_date,
  unparsable dates left out. When no date parses, the ValueError of \<^verbatim>\<open>int(NaN)\<close> is caught
  inside the method, and so is an exception of the conversion; \<^verbatim>\<open>year_range\<close> is then
  \<^verbatim>\<open>None\<close>, and the caller gets the statistics.
\<close>

theorem year_range_min_max:
  assumes "has_column (tracks_df g) ''release_date''"
  shows "year_range (fst (create_summary_stats to_datetime g)) =
           Some (case to_datetime (str_col (tracks_df g) ''release_date'') of
                   Inl e \<Rightarrow> None
                 | Inr parse \<Rightarrow>
                     if parsed_years parse (tracks_df g) = [] then None
                     else Some \<lparr>min_year = Min (set (parsed_years parse (tracks_df g))),
                                max_year = Max (set (parsed_years parse (tracks_df g)))\<rparr>)"
  using assms
  by (simp add: summary_stats_unfold Let_def year_range_try_with_release_year split: sum.split)

theorem year_range_min_max_witness:
  "has_column (tracks_df scenario_gen) ''release_date'' \<and>
   year_range (fst (create_summary_stats sample_to_datetime scenario_gen)) =
     Some (Some \<lparr>min_year = 2020, max_year = 2021\<rparr>) \<and>
   year_range (fst (create_summary_stats (\<lambda>col. Inr (\<lambda>s. None)) scenario_gen)) = Some None \<and>
   has_column (tracks_df mixed_offset_gen) ''release_date'' \<and>
   year_range (fst (create_summary_stats sample_to_datetime mixed_offset_gen)) = Some None"
  using year_range_min_max [OF scenario_has_release_date, of sample_to_datetime]
    year_range_min_max [OF scenario_has_release_date, of "\<lambda>col. Inr (\<lambda>s. None)"]
    year_range_min_max [OF mixed_offset_has_release_date, of sample_to_datetime]
  by (simp add: scenario_has_release_date mixed_offset_has_release_date scenario_converted
        mixed_offset_raises scenario_parsed_years)
     (simp add: parsed_years_def scenario_gen_def track_row_def release_year_of_def)

section \<open>Yearly trends: properties\<close>

lemma has_column_with_release_year:
  "has_column (with_release_year parse df) c \<longleftrightarrow> c = ''release_year'' \<or> has_column df c"
  by (auto simp: with_release_year_def assign_num_def has_column_def)

lemma strict_sorted_sort_remdups: "sorted_wrt (<) (sort (remdups (xs::'a::linorder list)))"
  by (simp add: strict_sorted_iff)

lemma sort_remdups_of_int:
  "sort (remdups (map real_of_int ys)) = map real_of_int (sort (remdups ys))"
proof (rule sorted_distinct_set_unique)
  show "sorted (sort (remdups (map real_of_int ys)))" by simp
  show "distinct (sort (remdups (map real_of_int ys)))" by simp
  have "sorted_wrt (<) (map real_of_int (sort (remdups ys)))"
    using strict_sorted_sort_remdups [of ys] by (simp add: sorted_wrt_map)
  then show "sorted (map real_of_int (sort (remdups ys)))"
    and "distinct (map real_of_int (sort (remdups ys)))"
    by (simp_all only: strict_sorted_iff)
  show "set (sort (remdups (map real_of_int ys))) = set (map real_of_int (sort (remdups ys)))"
    by simp
qed

lemma group_keys_with_release_year:
  "sort (remdups (dropna (num_col (with_release_year parse df) ''release_year''))) =
     map real_of_int (sort (remdups (parsed_years parse df)))"
  by (simp only: num_col_with_release_year dropna_map_option sort_remdups_of_int
        parsed_years_def)

lemma group_cells_with_release_year:
  assumes "f \<noteq> ''release_year''"
  shows "map (\<lambda>r. nums r f)
           (filter (\<lambda>r. nums r ''release_year'' = Some (real_of_int y))
              (rows (with_release_year parse df))) =
         map (\<lambda>r. nums r f) (filter (\<lambda>r. release_year_of parse r = Some y) (rows df))"
proof -
  have "map (\<lambda>r. nums r f)
          (filter (\<lambda>r. nums r ''release_year'' = Some (real_of_int y))
             (map (\<lambda>r. r\<lparr>nums := (nums r)
                      (''release_year'' := map_option real_of_int (release_year_of parse r))\<rparr>) rs)) =
        map (\<lambda>r. nums r f) (filter (\<lambda>r. release_year_of parse r = Some y) rs)" for rs
    using assms by (induction rs) auto
  then show ?thesis by (simp add: with_release_year_def assign_num_def)
qed

lemma trend_feature_not_year: "f \<in> set trend_features \<Longrightarrow> f \<noteq> ''release_year''"
  by (auto simp: trend_features_def)

lemma available_with_release_year:
  "filter (has_column (with_release_year parse df)) trend_features =
     filter (has_column df) trend_features"
  by (rule filter_cong) (auto simp: has_column_with_release_year dest: trend_feature_not_year)

lemma rows_groupby_filtered:
  "filter reasonable_year (rows (groupby_mean (with_release_year parse df) ''release_year'' feats)) =
     map (\<lambda>y. \<lparr>strs = (\<lambda>c. None),
                nums = (\<lambda>c. if c = ''release_year'' then Some (real_of_int y)
                             else if c \<in> set feats then year_mean parse df c y else None)\<rparr>)
       (trend_years parse df)"
  unfolding groupby_mean_def group_keys_with_release_year trend_years_def
  by (simp add: filter_map comp_def reasonable_year_def year_mean_def
        group_cells_with_release_year cong: if_cong)

lemma yearly_trends_with_release_year:
  assumes "filter (has_column df) trend_features \<noteq> []"
  shows "create_yearly_trends uuid (g\<lparr>tracks_df := with_release_year parse df\<rparr>) =
           Some (to_html uuid (trend_series parse df))"
proof -
  let ?avail = "filter (has_column df) trend_features"
  let ?df' = "with_release_year parse df"
  let ?yt = "(groupby_mean ?df' ''release_year'' ?avail)
               \<lparr>rows := filter reasonable_year (rows (groupby_mean ?df' ''release_year'' ?avail))\<rparr>"
  have x: "num_col ?yt ''release_year'' = map (\<lambda>y. Some (real_of_int y)) (trend_years parse df)"
    by (simp add: num_col_def rows_groupby_filtered comp_def)
  have y: "num_col ?yt f = map (year_mean parse df f) (trend_years parse df)"
    if "f \<in> set ?avail" for f
  proof -
    from that have "f \<noteq> ''release_year''" by (auto dest: trend_feature_not_year)
    with that show ?thesis
      by (simp add: num_col_def rows_groupby_filtered comp_def)
  qed
  have ys: "map (\<lambda>f. (f, num_col ?yt f)) ?avail =
            map (\<lambda>f. (f, map (year_mean parse df f) (trend_years parse df))) ?avail"
    by (rule map_cong) (simp_all add: y)
  show ?thesis
    using assms
    by (simp add: create_yearly_trends_def Let_def has_column_with_release_year
          available_with_release_year x ys trend_series_def)
qed

lemma trend_years_sorted: "sorted_wrt (<) (trend_years parse df)"
  unfolding trend_years_def by (intro sorted_wrt_filter strict_sorted_sort_remdups)

lemma set_trend_years:
  "set (trend_years parse df) = {y \<in> set (parsed_years parse df). 1990 \<le> y \<and> y \<le> 2025}"
  by (auto simp: trend_years_def)

lemma trends_chart_of_report:
  assumes "generate_html_report to_datetime float_corr uuid g = Inr (rep, g')"
  shows "trends_chart rep =
           create_yearly_trends (uuid Yearly_trends) (snd (create_summary_stats to_datetime g))"
  using assms
  by (auto simp: generate_html_report_def Let_def case_prod_beta split: sum.splits)

lemma scenario_has_trend_feature:
  "filter (has_column (tracks_df scenario_gen)) trend_features \<noteq> []"
  by (simp add: scenario_gen_def has_column_def trend_features_def)

lemma scenario_no_release_year: "\<not> has_column (tracks_df scenario_gen) ''release_year''"
  by (simp add: scenario_gen_def has_column_def)

lemma mixed_offset_has_trend_feature:
  "filter (has_column (tracks_df mixed_offset_gen)) trend_features \<noteq> []"
  by (simp add: mixed_offset_gen_def has_column_def trend_features_def)

lemma mixed_offset_no_release_year: "\<not> has_column (tracks_df mixed_offset_gen) ''release_year''"
  by (simp add: mixed_offset_gen_def has_column_def)

text \<open>
  Claim C3, as amended. For every tracks table with a release_date column and at least one
  of danceability, energy and valence, the yearly-trends method, called after the summary
  statistics have run and their date conversion has not raised (the order of
  \<^verbatim>\<open>generate_html_report\<close>), groups the rows by the integer year read from release_date,
  unparsable dates left out, takes the mean of every available feature per year, keeps the
  years from 1990 to 2025, and returns the series in strictly ascending order of the year,
  so without duplicates. The trends chart of a report is this chart.
\<close>

theorem yearly_trends_after_summary_stats:
  assumes "has_column (tracks_df g) ''release_date''"
    and "to_datetime (str_col (tracks_df g) ''release_date'') = Inr parse"
    and "filter (has_column (tracks_df g)) trend_features \<noteq> []"
  shows "\<exists>ys. create_yearly_trends uuid (snd (create_summary_stats to_datetime g)) =
             Some (to_html uuid
               (Scatter_lines (map (\<lambda>y. Some (real_of_int y)) ys)
                  (map (\<lambda>f. (f, map (year_mean parse (tracks_df g) f) ys))
                     (filter (has_column (tracks_df g)) trend_features)))) \<and>
           sorted_wrt (<) ys \<and>
           set ys = {y \<in> set (parsed_years parse (tracks_df g)). 1990 \<le> y \<and> y \<le> 2025} \<and>
           (\<forall>float_corr ids rep g'.
              generate_html_report to_datetime float_corr ids g = Inr (rep, g') \<longrightarrow>
              trends_chart rep =
                Some (to_html (ids Yearly_trends)
                  (Scatter_lines (map (\<lambda>y. Some (real_of_int y)) ys)
                     (map (\<lambda>f. (f, map (year_mean parse (tracks_df g) f) ys))
                        (filter (has_column (tracks_df g)) trend_features)))))"
proof -
  let ?ys = "trend_years parse (tracks_df g)"
  have chart: "create_yearly_trends u (snd (create_summary_stats to_datetime g)) =
      Some (to_html u (trend_series parse (tracks_df g)))" for u
    unfolding summary_stats_converted
                [where to_datetime = to_datetime and g = g and parse = parse, OF assms(1,2)]
    by (rule yearly_trends_with_release_year [OF assms(3)])
  have "create_yearly_trends uuid (snd (create_summary_stats to_datetime g)) =
      Some (to_html uuid (Scatter_lines (map (\<lambda>y. Some (real_of_int y)) ?ys)
                  (map (\<lambda>f. (f, map (year_mean parse (tracks_df g) f) ?ys))
                     (filter (has_column (tracks_df g)) trend_features))))"
    using chart [of uuid] by (simp add: trend_series_def)
  moreover have "\<forall>float_corr ids rep g'.
      generate_html_report to_datetime float_corr ids g = Inr (rep, g') \<longrightarrow>
      trends_chart rep =
        Some (to_html (ids Yearly_trends)
          (Scatter_lines (map (\<lambda>y. Some (real_of_int y)) ?ys)
             (map (\<lambda>f. (f, map (year_mean parse (tracks_df g) f) ?ys))
                (filter (has_column (tracks_df g)) trend_features))))"
    using chart by (auto simp: trend_series_def dest!: trends_chart_of_report)
  ultimately show ?thesis
    using trend_years_sorted [of parse "tracks_df g"] set_trend_years [of parse "tracks_df g"]
    by blast
qed

text \<open>The claim as first stated has the method parse release_date itself. On the table of
  the scenario, which has release_date and danceability, the method called on its own
  returns \<^verbatim>\<open>None\<close>.\<close>

theorem yearly_trends_alone_is_none:
  "has_column (tracks_df scenario_gen) ''release_date'' \<and>
   has_column (tracks_df scenario_gen) ''danceability'' \<and>
   create_yearly_trends ''3f2a'' scenario_gen = None"
  by (simp add: create_yearly_trends_def scenario_gen_def has_column_def)

theorem yearly_trends_after_summary_stats_witness:
  "has_column (tracks_df scenario_gen) ''release_date'' \<and>
   sample_to_datetime (str_col (tracks_df scenario_gen) ''release_date'') = Inr scenario_years \<and>
   filter (has_column (tracks_df scenario_gen)) trend_features \<noteq> [] \<and>
   (\<exists>ys. create_yearly_trends ''3f2a'' (snd (create_summary_stats sample_to_datetime scenario_gen)) =
            Some (to_html ''3f2a''
              (Scatter_lines (map (\<lambda>y. Some (real_of_int y)) ys)
                 (map (\<lambda>f. (f, map (year_mean scenario_years (tracks_df scenario_gen) f) ys))
                    (filter (has_column (tracks_df scenario_gen)) trend_features)))) \<and>
          sorted_wrt (<) ys \<and> set ys = {2020, 2021})"
proof -
  have "{y \<in> set (parsed_years scenario_years (tracks_df scenario_gen)). 1990 \<le> y \<and> y \<le> 2025} =
          {2020, 2021}"
    by (auto simp: scenario_parsed_years)
  with yearly_trends_after_summary_stats
         [where to_datetime = sample_to_datetime and g = scenario_gen and parse = scenario_years
            and uuid = "''3f2a''",
          OF scenario_has_release_date scenario_converted scenario_has_trend_feature]
  show ?thesis
    using scenario_has_release_date scenario_converted scenario_has_trend_feature by auto
qed

text \<open>
  Claim C9, as amended. The summary statistics write a release_year column into the tracks
  table of the generator unless their date conversion raises, and the yearly-trends method
  reads that column and never parses release_date: on a table with release_date and one of
  the trend features but without release_year, the yearly-trends method returns \<^verbatim>\<open>None\<close>
  before the summary statistics have run; after them it returns the trend series of the
  table when the conversion has succeeded, and still \<^verbatim>\<open>None\<close>, the table being unchanged,
  when the conversion has raised.
\<close>

theorem yearly_trends_depends_on_summary_stats:
  assumes "has_column (tracks_df g) ''release_date''"
    and "\<not> has_column (tracks_df g) ''release_year''"
    and "filter (has_column (tracks_df g)) trend_features \<noteq> []"
  shows "create_yearly_trends uuid g = None \<and>
         (case to_datetime (str_col (tracks_df g) ''release_date'') of
            Inr parse \<Rightarrow>
              has_column (tracks_df (snd (create_summary_stats to_datetime g))) ''release_year'' \<and>
              num_col (tracks_df (snd (create_summary_stats to_datetime g))) ''release_year'' =
                map (\<lambda>r. map_option real_of_int (release_year_of parse r)) (rows (tracks_df g)) \<and>
              create_yearly_trends uuid (snd (create_summary_stats to_datetime g)) =
                Some (to_html uuid (trend_series parse (tracks_df g)))
          | Inl e \<Rightarrow>
              snd (create_summary_stats to_datetime g) = g \<and>
              create_yearly_trends uuid (snd (create_summary_stats to_datetime g)) = None)"
proof -
  have before: "create_yearly_trends uuid g = None"
    using assms(2) by (simp add: create_yearly_trends_def)
  show ?thesis
  proof (cases "to_datetime (str_col (tracks_df g) ''release_date'')")
    case (Inl e)
    then have "snd (create_summary_stats to_datetime g) = g" by (rule summary_stats_raised)
    with before Inl show ?thesis by simp
  next
    case (Inr parse)
    let ?g' = "g\<lparr>tracks_df := with_release_year parse (tracks_df g)\<rparr>"
    have snd: "snd (create_summary_stats to_datetime g) = ?g'"
      using assms(1) Inr by (rule summary_stats_converted)
    have "has_column (tracks_df ?g') ''release_year''"
      by (simp add: has_column_with_release_year)
    moreover have "num_col (tracks_df ?g') ''release_year'' =
           map (\<lambda>r. map_option real_of_int (release_year_of parse r)) (rows (tracks_df g))"
      by (simp add: num_col_with_release_year)
    moreover have "create_yearly_trends uuid ?g' =
        Some (to_html uuid (trend_series parse (tracks_df g)))"
      by (rule yearly_trends_with_release_year [OF assms(3)])
    ultimately show ?thesis using before Inr unfolding snd by simp
  qed
qed

text \<open>The claim as first stated promises the trend series after the summary statistics on
  every such table. On the two tracks below the conversion raises inside the \<^verbatim>\<open>try\<close>, no
  column is written, and the method returns \<^verbatim>\<open>None\<close> after the summary statistics too.\<close>

theorem yearly_trends_none_after_failed_conversion:
  "has_column (tracks_df mixed_offset_gen) ''release_date'' \<and>
   has_column (tracks_df mixed_offset_gen) ''danceability'' \<and>
   \<not> has_column (tracks_df mixed_offset_gen) ''release_year'' \<and>
   create_yearly_trends ''3f2a''
     (snd (create_summary_stats sample_to_datetime mixed_offset_gen)) = None"
proof -
  have "snd (create_summary_stats sample_to_datetime mixed_offset_gen) = mixed_offset_gen"
    using mixed_offset_raises by (rule summary_stats_raised)
  then show ?thesis
    by (simp add: create_yearly_trends_def mixed_offset_gen_def has_column_def)
qed

theorem yearly_trends_depends_on_summary_stats_witness:
  "has_column (tracks_df scenario_gen) ''release_date'' \<and>
   \<not> has_column (tracks_df scenario_gen) ''release_year'' \<and>
   filter (has_column (tracks_df scenario_gen)) trend_features \<noteq> [] \<and>
   create_yearly_trends ''3f2a'' scenario_gen = None \<and>
   create_yearly_trends ''3f2a'' (snd (create_summary_stats sample_to_datetime scenario_gen)) =
     Some (to_html ''3f2a'' (trend_series scenario_years (tracks_df scenario_gen))) \<and>
   has_column (tracks_df mixed_offset_gen) ''release_date'' \<and>
   \<not> has_column (tracks_df mixed_offset_gen) ''release_year'' \<and>
   filter (has_column (tracks_df mixed_offset_gen)) trend_features \<noteq> [] \<and>
   snd (create_summary_stats sample_to_datetime mixed_offset_gen) = mixed_offset_gen"
  using yearly_trends_depends_on_summary_stats
          [where to_datetime = sample_to_datetime and g = scenario_gen and uuid = "''3f2a''",
           OF scenario_has_release_date scenario_no_release_year scenario_has_trend_feature]
    yearly_trends_depends_on_summary_stats
          [where to_datetime = sample_to_datetime and g = mixed_offset_gen and uuid = "''3f2a''",
           OF mixed_offset_has_release_date mixed_offset_no_release_year
              mixed_offset_has_trend_feature]
    scenario_has_release_date scenario_no_release_year scenario_has_trend_feature
    mixed_offset_has_release_date mixed_offset_no_release_year mixed_offset_has_trend_feature
  by (simp add: scenario_converted mixed_offset_raises)

section \<open>Top artists: properties\<close>

lemma set_unique: "set (unique xs) = set xs"
  by (induction xs) auto

lemma distinct_unique: "distinct (unique xs)"
  by (induction xs) auto




lemma sum_list_insort_key: "sum_list (map g (insort_key f x xs)) = g x + sum_list (map g xs)"
  for g :: "'a \<Rightarrow> nat"
  by (induction xs) auto

lemma sum_list_sort_key: "sum_list (map g (sort_key f xs)) = sum_list (map g xs)"
  for g :: "'a \<Rightarrow> nat"
  by (induction xs) (auto simp: sum_list_insort_key)

lemma sum_list_take_le: "sum_list (take n xs) \<le> sum_list xs" for xs :: "nat list"
proof -
  have "sum_list (take n xs) + sum_list (drop n xs) = sum_list xs"
    by (simp flip: sum_list_append)
  then show ?thesis by linarith
qed

lemma sum_count_unique: "sum_list (map (count_list vs) (unique vs)) = length vs"
proof -
  have "sum_list (map (count_list vs) (unique vs)) = sum (count_list vs) (set vs)"
    by (simp add: sum_list_distinct_conv_sum_set distinct_unique set_unique)
  also have "\<dots> = length vs" by (rule sum_count_set) auto
  finally show ?thesis .
qed

lemma sum_value_counts: "sum_list (map snd (value_counts xs)) = length (dropna xs)"
  by (simp add: value_counts_def Let_def sum_list_sort_key comp_def sum_count_unique)



lemma value_counts_entries:
  "p \<in> set (value_counts xs) \<Longrightarrow>
     snd p = count_list (dropna xs) (fst p) \<and> fst p \<in> set (dropna xs)"
  by (auto simp: value_counts_def Let_def set_unique)

lemma value_counts_keys:
  "distinct (map fst (value_counts xs)) \<and> set (map fst (value_counts xs)) = set (dropna xs)"
proof -
  let ?l = "map (\<lambda>k. (k, count_list (dropna xs) k)) (unique (dropna xs))"
  have l: "distinct (map fst ?l)" "set (map fst ?l) = set (dropna xs)"
    by (simp_all add: comp_def distinct_unique set_unique)
  have "distinct (map fst (sort_key (\<lambda>p. - int (snd p)) ?l)) = distinct (map fst ?l)"
    by (simp only: distinct_map set_sort distinct_sort)
  moreover have "set (map fst (sort_key (\<lambda>p. - int (snd p)) ?l)) = set (map fst ?l)"
    by (simp only: set_map set_sort)
  ultimately show ?thesis using l by (simp only: value_counts_def Let_def)
qed

lemma value_counts_empty: "value_counts xs = [] \<longleftrightarrow> dropna xs = []"
proof -
  have "set (map fst (value_counts xs)) = set (dropna xs)"
    using value_counts_keys [of xs] by blast
  then show ?thesis by (metis map_is_Nil_conv set_empty)
qed

lemma top_artists_chart_unfold:
  assumes "has_column (tracks_df g) ''artist''"
  shows "create_top_artists_chart uuid g =
           (if artists (tracks_df g) = [] then Inl ValueError
            else Inr (Some (to_html uuid
                   (Bar (map snd (take 15 (value_counts (str_col (tracks_df g) ''artist''))))
                        (map fst (take 15 (value_counts (str_col (tracks_df g) ''artist''))))))))"
proof -
  have "take 15 (value_counts (str_col (tracks_df g) ''artist'')) = [] \<longleftrightarrow>
          artists (tracks_df g) = []"
    by (simp add: value_counts_empty artists_def)
  with assms show ?thesis
    by (simp add: create_top_artists_chart_def Let_def px_bar_def)
qed




lemma no_artist_has_artist: "has_column (tracks_df no_artist_gen) ''artist''"
  by (simp add: no_artist_gen_def has_column_def)

lemma no_artist_artists: "artists (tracks_df no_artist_gen) = []"
  by (simp add: artists_def no_artist_gen_def str_col_def artist_row_def)




text \<open>
  Claim C10. For every tracks table with an artist column, the rows with a null artist count
  towards no artist: whenever the top-artists method returns a chart, which it does exactly
  when some artist is non-null, every label of the chart is a non-null artist value, and the
  counts of the chart add up to at most the number of rows with a non-null artist.
\<close>

theorem top_artists_skip_null:
  assumes "has_column (tracks_df g) ''artist''"
  shows "(artists (tracks_df g) = [] \<longrightarrow> create_top_artists_chart uuid g = Inl ValueError) \<and>
         (artists (tracks_df g) \<noteq> [] \<longrightarrow>
            (\<exists>counts labels.
               create_top_artists_chart uuid g =
                 Inr (Some (to_html uuid (Bar counts labels))) \<and>
               set labels \<subseteq> set (artists (tracks_df g)) \<and>
               sum_list counts \<le>
                 length (filter (\<lambda>r. strs r ''artist'' \<noteq> None) (rows (tracks_df g)))))"
proof -
  let ?col = "str_col (tracks_df g) ''artist''"
  let ?ps = "take 15 (value_counts ?col)"
  have "sum_list (map snd ?ps) \<le> sum_list (map snd (value_counts ?col))"
    unfolding take_map [symmetric] by (rule sum_list_take_le)
  also have "\<dots> = length (dropna ?col)" by (rule sum_value_counts)
  also have "\<dots> = length (filter (\<lambda>r. strs r ''artist'' \<noteq> None) (rows (tracks_df g)))"
    by (simp add: length_dropna str_col_def filter_map comp_def)
  finally have sum: "sum_list (map snd ?ps) \<le>
      length (filter (\<lambda>r. strs r ''artist'' \<noteq> None) (rows (tracks_df g)))" .
  have labels: "set (map fst ?ps) \<subseteq> set (artists (tracks_df g))"
    using value_counts_entries [of _ ?col] set_take_subset [of 15 "value_counts ?col"]
    by (auto simp: artists_def)
  have "artists (tracks_df g) = [] \<longrightarrow> create_top_artists_chart uuid g = Inl ValueError"
    using assms by (simp add: top_artists_chart_unfold)
  moreover have "artists (tracks_df g) \<noteq> [] \<longrightarrow>
      create_top_artists_chart uuid g =
        Inr (Some (to_html uuid (Bar (map snd ?ps) (map fst ?ps))))"
    using assms by (simp add: top_artists_chart_unfold)
  ultimately show ?thesis using sum labels by blast
qed

theorem top_artists_skip_null_witness:
  "has_column (tracks_df null_artist_gen) ''artist'' \<and>
   artists (tracks_df null_artist_gen) \<noteq> [] \<and>
   length (rows (tracks_df null_artist_gen)) = 3 \<and>
   (\<exists>counts labels.
      create_top_artists_chart ''3f2a'' null_artist_gen =
        Inr (Some (to_html ''3f2a'' (Bar counts labels))) \<and>
      set labels \<subseteq> set (artists (tracks_df null_artist_gen)) \<and>
      sum_list counts \<le> 2) \<and>
   has_column (tracks_df no_artist_gen) ''artist'' \<and> artists (tracks_df no_artist_gen) = [] \<and>
   create_top_artists_chart ''3f2a'' no_artist_gen = Inl ValueError"
proof -
  have h: "has_column (tracks_df null_artist_gen) ''artist''"
    by (simp add: null_artist_gen_def has_column_def)
  have ne: "artists (tracks_df null_artist_gen) \<noteq> []"
    by (simp add: artists_def null_artist_gen_def str_col_def artist_row_def)
  have n: "length (filter (\<lambda>r. strs r ''artist'' \<noteq> None) (rows (tracks_df null_artist_gen))) = 2"
    by (simp add: null_artist_gen_def artist_row_def)
  have "length (rows (tracks_df null_artist_gen)) = 3"
    by (simp add: null_artist_gen_def)
  then show ?thesis
    using top_artists_skip_null [OF h, of "''3f2a''"]
      top_artists_skip_null [OF no_artist_has_artist, of "''3f2a''"]
      h ne no_artist_has_artist no_artist_artists
    unfolding n by simp
qed

section \<open>Correlation heatmap: properties\<close>













section \<open>Loading the data: properties\<close>

lemma max_ctime_greatest:
  "max_ctime f fs \<in> set (f # fs) \<and> (\<forall>x\<in>set (f # fs). ctime x \<le> ctime (max_ctime f fs))"
  unfolding max_ctime_def
proof (induction fs arbitrary: f)
  case Nil
  then show ?case by simp
next
  case (Cons a fs)
  show ?case
  proof (cases "ctime f < ctime a")
    case True
    with Cons.IH [of a] show ?thesis by auto
  next
    case False
    with Cons.IH [of f] show ?thesis by auto
  qed
qed

lemma find_latest_first:
  assumes "glob dir pat \<noteq> []"
  shows "\<exists>f. find_latest (pat # pats) dir = Some f \<and> f \<in> set (glob dir pat) \<and>
             (\<forall>x\<in>set (glob dir pat). ctime x \<le> ctime f)"
proof (cases "glob dir pat")
  case Nil
  with assms show ?thesis by simp
next
  case (Cons f fs)
  with max_ctime_greatest [of f fs] show ?thesis by auto
qed

lemma find_latest_None:
  "find_latest pats dir = None \<longleftrightarrow> (\<forall>pat\<in>set pats. glob dir pat = [])"
  by (induction pats) (auto split: list.splits)

lemma parquet_match_endswith: "fnmatch (pre, ''.parquet'') n \<Longrightarrow> endswith n ''.parquet''"
  by (simp add: fnmatch_def endswith_def)

lemma last_of_suffix:
  assumes "drop k n = s" and "s \<noteq> []"
  shows "last n = last s"
proof -
  from assms have "k < length n" by (cases "k < length n") auto
  then have "last (drop k n) = last n" by (rule last_drop)
  with assms(1) show ?thesis by simp
qed

lemma csv_match_not_parquet:
  assumes "fnmatch (pre, ''.csv'') n"
  shows "\<not> endswith n ''.parquet''"
proof
  assume "endswith n ''.parquet''"
  then have "drop (length n - length ''.parquet'') n = ''.parquet''"
    unfolding endswith_def by blast
  then have "last n = last ''.parquet''" by (rule last_of_suffix) simp
  moreover from assms have "drop (length n - length ''.csv'') n = ''.csv''"
    unfolding fnmatch_def by simp
  then have "last n = last ''.csv''" by (rule last_of_suffix) simp
  ultimately show False by simp
qed

lemma glob_member: "f \<in> set (glob dir pat) \<longleftrightarrow> f \<in> set dir \<and> fnmatch pat (path f)"
  by (simp add: glob_def)

lemma find_latest_formats:
  "(no_files pre dir \<longrightarrow> find_latest [(pre, ''.parquet''), (pre, ''.csv'')] dir = None) \<and>
   (\<not> no_files pre dir \<longrightarrow>
      (\<exists>f. find_latest [(pre, ''.parquet''), (pre, ''.csv'')] dir = Some f \<and>
           chosen_file pre dir f \<and>
           read_latest read_parquet read_csv f = chosen_reader read_parquet read_csv pre dir f))"
proof (cases "parquet_files pre dir = []")
  case False
  then have "glob dir (pre, ''.parquet'') \<noteq> []" by (simp add: parquet_files_def)
  from find_latest_first [OF this, of "[(pre, ''.csv'')]"]
  obtain f where f: "find_latest [(pre, ''.parquet''), (pre, ''.csv'')] dir = Some f"
    "f \<in> set (glob dir (pre, ''.parquet''))"
    "\<forall>x\<in>set (glob dir (pre, ''.parquet'')). ctime x \<le> ctime f"
    by blast
  from f(2) have "endswith (path f) ''.parquet''"
    by (auto simp: glob_member dest: parquet_match_endswith)
  with f False show ?thesis
    by (auto simp: no_files_def chosen_file_def chosen_reader_def newest_in_def
          parquet_files_def read_latest_def)
next
  case True
  then have pq: "glob dir (pre, ''.parquet'') = []" by (simp add: parquet_files_def)
  show ?thesis
  proof (cases "csv_files pre dir = []")
    case True
    with pq show ?thesis by (simp add: no_files_def parquet_files_def csv_files_def)
  next
    case False
    then have "glob dir (pre, ''.csv'') \<noteq> []" by (simp add: csv_files_def)
    from find_latest_first [OF this, of "[]"]
    obtain f where f: "find_latest [(pre, ''.csv'')] dir = Some f"
      "f \<in> set (glob dir (pre, ''.csv''))"
      "\<forall>x\<in>set (glob dir (pre, ''.csv'')). ctime x \<le> ctime f"
      by blast
    from f(2) have "\<not> endswith (path f) ''.parquet''"
      by (auto simp: glob_member dest: csv_match_not_parquet)
    with f pq True False show ?thesis
      by (auto simp: no_files_def chosen_file_def chosen_reader_def newest_in_def
            parquet_files_def csv_files_def read_latest_def)
  qed
qed

lemma load_latest_formats:
  "(no_files pre dir \<longrightarrow>
      load_latest read_parquet read_csv [(pre, ''.parquet''), (pre, ''.csv'')] dir = Inr None) \<and>
   (\<not> no_files pre dir \<longrightarrow>
      (\<exists>f. find_latest [(pre, ''.parquet''), (pre, ''.csv'')] dir = Some f \<and>
           chosen_file pre dir f \<and>
           load_latest read_parquet read_csv [(pre, ''.parquet''), (pre, ''.csv'')] dir =
             (case chosen_reader read_parquet read_csv pre dir f of
                Inl e \<Rightarrow> Inl e | Inr df \<Rightarrow> Inr (Some df))))"
  using find_latest_formats [of pre dir read_parquet read_csv]
  by (auto simp: load_latest_def)

text \<open>
  Claim C6, as amended. For every data directory, the loader tries the patterns of a data
  set in order, the parquet pattern before the CSV pattern, which is only a fallback, and
  takes the most recently created file among those that match the first pattern with a
  match, for the tracks and for the playlists alike: the newest parquet file, read with the
  parquet reader, when a parquet file matches, and else the newest CSV file, read with the
  CSV reader. A newer CSV file does not displace a parquet file; in particular, with a
  parquet file and an older CSV file the parquet file is selected.
\<close>

theorem load_data_selection:
  "(load_data read_parquet read_csv dir = Inr g \<longrightarrow>
      (\<exists>f. find_latest track_patterns dir = Some f \<and> chosen_file ''clean_tracks_'' dir f \<and>
           chosen_reader read_parquet read_csv ''clean_tracks_'' dir f = Inr (tracks_df g)) \<and>
      (if no_files ''clean_playlists_'' dir then playlists_df g = None
       else \<exists>f p. find_latest playlist_patterns dir = Some f \<and>
              chosen_file ''clean_playlists_'' dir f \<and>
              chosen_reader read_parquet read_csv ''clean_playlists_'' dir f = Inr p \<and>
              playlists_df g = Some p)) \<and>
   (\<not> no_files ''clean_tracks_'' dir \<and>
    (\<forall>f. chosen_file ''clean_tracks_'' dir f \<longrightarrow>
       (\<exists>t. chosen_reader read_parquet read_csv ''clean_tracks_'' dir f = Inr t)) \<and>
    (\<forall>f. chosen_file ''clean_playlists_'' dir f \<longrightarrow>
       (\<exists>p. chosen_reader read_parquet read_csv ''clean_playlists_'' dir f = Inr p)) \<longrightarrow>
    (\<exists>g. load_data read_parquet read_csv dir = Inr g))"
proof -
  note t = load_latest_formats [of "''clean_tracks_''" dir read_parquet read_csv]
  note p = load_latest_formats [of "''clean_playlists_''" dir read_parquet read_csv]
  show ?thesis
  proof (cases "no_files ''clean_tracks_'' dir")
    case True
    with t show ?thesis
      by (auto simp: load_data_def track_patterns_def split: sum.splits)
  next
    case nt: False
    with t obtain ft where ft:
      "find_latest [(''clean_tracks_'', ''.parquet''), (''clean_tracks_'', ''.csv'')] dir = Some ft"
      "chosen_file ''clean_tracks_'' dir ft"
      "load_latest read_parquet read_csv
         [(''clean_tracks_'', ''.parquet''), (''clean_tracks_'', ''.csv'')] dir =
       (case chosen_reader read_parquet read_csv ''clean_tracks_'' dir ft of
          Inl e \<Rightarrow> Inl e | Inr df \<Rightarrow> Inr (Some df))"
      by blast
    show ?thesis
    proof (cases "no_files ''clean_playlists_'' dir")
      case True
      with p have "load_latest read_parquet read_csv
         [(''clean_playlists_'', ''.parquet''), (''clean_playlists_'', ''.csv'')] dir = Inr None"
        by blast
      moreover from True have "\<not> chosen_file ''clean_playlists_'' dir f" for f
        by (simp add: no_files_def chosen_file_def newest_in_def)
      ultimately show ?thesis using ft True nt
        by (auto simp: load_data_def track_patterns_def playlist_patterns_def
              split: sum.splits)
    next
      case False
      with p obtain fp where fp:
        "find_latest [(''clean_playlists_'', ''.parquet''), (''clean_playlists_'', ''.csv'')] dir
           = Some fp"
        "chosen_file ''clean_playlists_'' dir fp"
        "load_latest read_parquet read_csv
           [(''clean_playlists_'', ''.parquet''), (''clean_playlists_'', ''.csv'')] dir =
         (case chosen_reader read_parquet read_csv ''clean_playlists_'' dir fp of
            Inl e \<Rightarrow> Inl e | Inr df \<Rightarrow> Inr (Some df))"
        by blast
      with ft False nt show ?thesis
        by (auto simp: load_data_def track_patterns_def playlist_patterns_def
              split: sum.splits)
    qed
  qed
qed

lemma tracks_of_older_parquet_dir:
  "parquet_files ''clean_tracks_'' older_parquet_dir =
     [\<lparr>path = ''clean_tracks_1.parquet'', ctime = 1\<rparr>] \<and>
   csv_files ''clean_tracks_'' older_parquet_dir = [\<lparr>path = ''clean_tracks_2.csv'', ctime = 2\<rparr>]"
  by (simp add: parquet_files_def csv_files_def glob_def older_parquet_dir_def fnmatch_def)

lemma tracks_of_both_formats_dir:
  "parquet_files ''clean_tracks_'' both_formats_dir =
     [\<lparr>path = ''clean_tracks_1.parquet'', ctime = 1\<rparr>,
      \<lparr>path = ''clean_tracks_3.parquet'', ctime = 3\<rparr>]"
  by (simp add: parquet_files_def glob_def both_formats_dir_def fnmatch_def)

lemma playlists_of_both_formats_dir:
  "parquet_files ''clean_playlists_'' both_formats_dir = [] \<and>
   csv_files ''clean_playlists_'' both_formats_dir =
     [\<lparr>path = ''clean_playlists_1.csv'', ctime = 1\<rparr>,
      \<lparr>path = ''clean_playlists_2.csv'', ctime = 2\<rparr>]"
  by (simp add: parquet_files_def csv_files_def glob_def both_formats_dir_def fnmatch_def)

lemma find_latest_older_parquet_dir:
  "find_latest track_patterns older_parquet_dir =
     Some \<lparr>path = ''clean_tracks_1.parquet'', ctime = 1\<rparr> \<and>
   find_latest playlist_patterns older_parquet_dir = None"
proof -
  have g: "glob older_parquet_dir (''clean_tracks_'', ''.parquet'') =
             [\<lparr>path = ''clean_tracks_1.parquet'', ctime = 1\<rparr>]"
    using tracks_of_older_parquet_dir by (simp add: parquet_files_def)
  have "find_latest track_patterns older_parquet_dir =
          Some \<lparr>path = ''clean_tracks_1.parquet'', ctime = 1\<rparr>"
    by (simp add: track_patterns_def g max_ctime_def)
  moreover have "find_latest playlist_patterns older_parquet_dir = None"
    by (simp add: playlist_patterns_def glob_def older_parquet_dir_def fnmatch_def)
  ultimately show ?thesis by simp
qed

lemma read_older_parquet:
  "read_latest read_parquet read_csv \<lparr>path = ''clean_tracks_1.parquet'', ctime = 1\<rparr> =
     read_parquet \<lparr>path = ''clean_tracks_1.parquet'', ctime = 1\<rparr>"
  by (simp add: read_latest_def endswith_def)

lemma load_older_parquet_dir:
  "load_data read_parquet read_csv older_parquet_dir =
     (case read_parquet \<lparr>path = ''clean_tracks_1.parquet'', ctime = 1\<rparr> of
        Inl e \<Rightarrow> Inl e
      | Inr t \<Rightarrow> Inr \<lparr>tracks_df = t, playlists_df = None\<rparr>)"
  by (simp add: load_data_def load_latest_def find_latest_older_parquet_dir read_older_parquet
        split: sum.split)

text \<open>The claim as first stated has the loader select the most recently created matching
  file. In the directory below the CSV file matches and is the newer one, and the loader
  selects the parquet file and reads it with the parquet reader.\<close>

theorem older_parquet_wins:
  "csv_files ''clean_tracks_'' older_parquet_dir = [\<lparr>path = ''clean_tracks_2.csv'', ctime = 2\<rparr>] \<and>
   find_latest track_patterns older_parquet_dir =
     Some \<lparr>path = ''clean_tracks_1.parquet'', ctime = 1\<rparr> \<and>
   load_data scenario_reader failing_reader older_parquet_dir =
     Inr \<lparr>tracks_df = tracks_df scenario_gen, playlists_df = None\<rparr>"
  using tracks_of_older_parquet_dir find_latest_older_parquet_dir
  by (simp add: load_older_parquet_dir scenario_reader_def)

theorem load_data_selection_witness:
  "load_data scenario_reader scenario_reader both_formats_dir =
     Inr \<lparr>tracks_df = tracks_df scenario_gen, playlists_df = Some (tracks_df scenario_gen)\<rparr> \<and>
   \<not> no_files ''clean_tracks_'' both_formats_dir \<and>
   \<not> no_files ''clean_playlists_'' both_formats_dir \<and>
   (\<exists>f. find_latest track_patterns both_formats_dir = Some f \<and>
        chosen_file ''clean_tracks_'' both_formats_dir f \<and> ctime f = 3) \<and>
   (\<exists>f. find_latest playlist_patterns both_formats_dir = Some f \<and>
        chosen_file ''clean_playlists_'' both_formats_dir f \<and> ctime f = 2)"
proof -
  let ?g = "\<lparr>tracks_df = tracks_df scenario_gen, playlists_df = Some (tracks_df scenario_gen)\<rparr>"
  have ok: "\<not> no_files ''clean_tracks_'' both_formats_dir \<and>
        \<not> no_files ''clean_playlists_'' both_formats_dir \<and>
        (\<forall>f. chosen_file ''clean_tracks_'' both_formats_dir f \<longrightarrow>
           (\<exists>t. chosen_reader scenario_reader scenario_reader ''clean_tracks_'' both_formats_dir f
                  = Inr t)) \<and>
        (\<forall>f. chosen_file ''clean_playlists_'' both_formats_dir f \<longrightarrow>
           (\<exists>p. chosen_reader scenario_reader scenario_reader ''clean_playlists_''
                   both_formats_dir f = Inr p))"
    using tracks_of_both_formats_dir playlists_of_both_formats_dir
    by (simp add: no_files_def chosen_reader_def scenario_reader_def)
  with load_data_selection [of scenario_reader scenario_reader both_formats_dir]
  obtain g where g: "load_data scenario_reader scenario_reader both_formats_dir = Inr g"
    by blast
  from load_data_selection [of scenario_reader scenario_reader both_formats_dir g] g ok
  obtain ft fp p where sel:
    "find_latest track_patterns both_formats_dir = Some ft"
    "chosen_file ''clean_tracks_'' both_formats_dir ft"
    "scenario_reader ft = Inr (tracks_df g)"
    "find_latest playlist_patterns both_formats_dir = Some fp"
    "chosen_file ''clean_playlists_'' both_formats_dir fp"
    "scenario_reader fp = Inr p" "playlists_df g = Some p"
    by (auto simp: chosen_reader_def)
  from sel(3,6,7) have "g = ?g"
    by (cases g) (simp add: scenario_reader_def)
  moreover from sel(2) have "ctime ft = 3"
    using tracks_of_both_formats_dir
    by (auto simp: chosen_file_def newest_in_def)
  moreover from sel(5) have "ctime fp = 2"
    using playlists_of_both_formats_dir
    by (auto simp: chosen_file_def newest_in_def)
  ultimately show ?thesis using g ok sel by blast
qed

section \<open>Unavailable features and fatal conditions\<close>

lemma str_col_with_release_year: "str_col (with_release_year parse df) c = str_col df c"
  by (simp add: with_release_year_def assign_num_def str_col_def)










section \<open>Repeated invocation\<close>

lemma release_year_of_assigned:
  "release_year_of parse (r\<lparr>nums := ns\<rparr>) = release_year_of parse r"
  by (simp add: release_year_of_def)

lemma with_release_year_idem:
  "with_release_year parse (with_release_year parse df) = with_release_year parse df"
  by (simp add: with_release_year_def assign_num_def release_year_of_assigned)

lemma len_with_release_year: "len (with_release_year parse df) = len df"
  by (simp add: with_release_year_def assign_num_def len_def)

lemma summary_stats_idem:
  "create_summary_stats to_datetime (snd (create_summary_stats to_datetime g)) =
     create_summary_stats to_datetime g"
proof (cases "has_column (tracks_df g) ''release_date''")
  case False
  then show ?thesis by (simp add: summary_stats_without_column)
next
  case True
  show ?thesis
  proof (cases "to_datetime (str_col (tracks_df g) ''release_date'')")
    case (Inl e)
    then show ?thesis by (simp add: summary_stats_raised)
  next
    case (Inr parse)
    show ?thesis
      unfolding summary_stats_converted
                  [where to_datetime = to_datetime and g = g and parse = parse, OF True Inr]
      using True Inr
      by (simp add: summary_stats_unfold Let_def has_column_with_release_year
            str_col_with_release_year len_with_release_year with_release_year_idem
          split: sum.split)
  qed
qed

lemma invoke_summary_stats:
  "invoke to_datetime float_corr uuid Summary_stats g =
     (Inr (Stats_out (fst (create_summary_stats to_datetime g))),
      snd (create_summary_stats to_datetime g))"
  by (simp add: case_prod_beta)

lemma figure_to_html: "figure (to_html uuid fig) = fig"
  by (simp add: to_html_def)

lemma invoke_leaves_table:
  "opn \<noteq> Summary_stats \<Longrightarrow> snd (invoke to_datetime float_corr uuid opn g) = g"
  by (cases opn) (simp_all split: sum.split)

lemma figure_data_any_uuid:
  "figure_data (fst (invoke to_datetime float_corr u2 opn g)) =
     figure_data (fst (invoke to_datetime float_corr u1 opn g))"
proof (cases opn)
  case Summary_stats
  then show ?thesis by (simp add: invoke_summary_stats del: invoke.simps(1))
next
  case Popularity_chart
  then show ?thesis by (simp add: create_popularity_chart_def Let_def figure_to_html)
next
  case Audio_features_radar
  then show ?thesis by (simp add: create_audio_features_radar_def Let_def figure_to_html)
next
  case Yearly_trends
  then show ?thesis by (simp add: create_yearly_trends_def Let_def figure_to_html)
next
  case Top_artists_chart
  then show ?thesis
    by (simp add: create_top_artists_chart_def Let_def figure_to_html split: sum.split)
next
  case Correlation_heatmap
  then show ?thesis by (simp add: create_correlation_heatmap_def Let_def figure_to_html)
qed

text \<open>
  Claim C7, as amended. For every tracks table, calling the same method twice in a row on
  the generator gives the same statistics, the same figure data or the same exception both
  times, and leaves the table after the second call as after the first: the one method that
  changes the table, the summary statistics, writes on its second call what it wrote on its
  first. The two renderings of a chart agree up to the id of their \<^verbatim>\<open>div\<close>, which is drawn
  afresh in every call; they are equal when the same id is drawn.
\<close>

theorem repeated_invocation_same_output:
  "figure_data (fst (invoke to_datetime float_corr u2 opn
                       (snd (invoke to_datetime float_corr u1 opn g)))) =
     figure_data (fst (invoke to_datetime float_corr u1 opn g)) \<and>
   snd (invoke to_datetime float_corr u2 opn (snd (invoke to_datetime float_corr u1 opn g))) =
     snd (invoke to_datetime float_corr u1 opn g) \<and>
   (opn = Summary_stats \<or> u1 = u2 \<longrightarrow>
      fst (invoke to_datetime float_corr u2 opn (snd (invoke to_datetime float_corr u1 opn g))) =
        fst (invoke to_datetime float_corr u1 opn g))"
proof (cases "opn = Summary_stats")
  case True
  then show ?thesis
    by (simp add: invoke_summary_stats summary_stats_idem del: invoke.simps(1))
next
  case False
  then have "snd (invoke to_datetime float_corr u1 opn g) = g"
    and "snd (invoke to_datetime float_corr u2 opn g) = g"
    by (simp_all add: invoke_leaves_table)
  then show ?thesis
    using figure_data_any_uuid [of to_datetime float_corr u2 opn g u1] False by simp
qed

text \<open>The claim as first stated has the two outputs identical. The popularity chart of the
  scenario, rendered twice with the ids drawn in two calls, gives two different
  results.\<close>

theorem renderings_differ_in_div_id:
  "fst (invoke sample_to_datetime exact_corr ''9c41'' Popularity_chart
          (snd (invoke sample_to_datetime exact_corr ''3f2a'' Popularity_chart scenario_gen))) \<noteq>
   fst (invoke sample_to_datetime exact_corr ''3f2a'' Popularity_chart scenario_gen)"
  by (simp add: create_popularity_chart_def Let_def scenario_gen_def has_column_def
        to_html_def)

theorem repeated_invocation_same_output_witness:
  "figure_data (fst (invoke sample_to_datetime exact_corr ''9c41'' Popularity_chart
                       (snd (invoke sample_to_datetime exact_corr ''3f2a'' Popularity_chart
                               scenario_gen)))) =
     figure_data (fst (invoke sample_to_datetime exact_corr ''3f2a'' Popularity_chart
                         scenario_gen)) \<and>
   fst (invoke sample_to_datetime exact_corr ''9c41'' Summary_stats
          (snd (invoke sample_to_datetime exact_corr ''3f2a'' Summary_stats scenario_gen))) =
     fst (invoke sample_to_datetime exact_corr ''3f2a'' Summary_stats scenario_gen) \<and>
   fst (invoke sample_to_datetime exact_corr ''3f2a'' Popularity_chart
          (snd (invoke sample_to_datetime exact_corr ''3f2a'' Popularity_chart scenario_gen))) =
     fst (invoke sample_to_datetime exact_corr ''3f2a'' Popularity_chart scenario_gen)"
  using repeated_invocation_same_output
          [of sample_to_datetime exact_corr "''9c41''" Popularity_chart "''3f2a''" scenario_gen]
    repeated_invocation_same_output
          [of sample_to_datetime exact_corr "''9c41''" Summary_stats "''3f2a''" scenario_gen]
    repeated_invocation_same_output
          [of sample_to_datetime exact_corr "''3f2a''" Popularity_chart "''3f2a''" scenario_gen]
  by blast


end
